theory Spec2Isabelle
  imports Main "HOL-Library.Sublist" "HOL-Library.Word"
begin

section \<open>Strings and values of the audit pipeline\<close>

text \<open>
  A Python \<open>str\<close> is a sequence of Unicode code points; it is modelled as a list of
  code points. \<open>py\<close> writes an ASCII literal of the source as such a list.
\<close>

type_synonym pystr = "nat list"

definition py :: "string \<Rightarrow> pystr" where
  "py s = map of_char s"

text \<open>
  The values \<open>json.loads\<close> produces: \<open>None\<close>, \<open>bool\<close>, \<open>int\<close>, \<open>float\<close> (its IEEE-754
  binary64 bit pattern), \<open>str\<close>, \<open>list\<close> and \<open>dict\<close>. A \<open>dict\<close> is the list of its items in
  insertion order, the order \<open>items()\<close> iterates.
\<close>

datatype json =
    JNull
  | JBool bool
  | JInt int
  | JFloat "64 word"
  | JStr pystr
  | JList "json list"
  | JDict "(pystr \<times> json) list"

datatype error = TypeError | AttributeError | ClientError

text \<open>Truth value of a Python object, as \<open>if quick_wins:\<close> tests it.\<close>

fun truthy :: "json \<Rightarrow> bool" where
  "truthy JNull = False"
| "truthy (JBool b) = b"
| "truthy (JInt i) = (i \<noteq> 0)"
| "truthy (JFloat w) = (push_bit 1 w \<noteq> 0)"
| "truthy (JStr s) = (s \<noteq> [])"
| "truthy (JList xs) = (xs \<noteq> [])"
| "truthy (JDict d) = (d \<noteq> [])"

text \<open>\<open>d.get(key, default)\<close> on a dict.\<close>

definition dict_get :: "(pystr \<times> json) list \<Rightarrow> pystr \<Rightarrow> json \<Rightarrow> json" where
  "dict_get d k dflt = (case map_of d k of Some v \<Rightarrow> v | None \<Rightarrow> dflt)"

text \<open>
  What the program takes from its libraries and its environment. \<open>uni_alnum\<close> is the
  Unicode table behind \<open>\w\<close> for the code points from 128 on; \<open>json_loads\<close> is
  \<open>json.loads\<close>, with \<open>None\<close> for any exception it raises; \<open>py_repr\<close> is \<open>str()\<close> on the
  values that are neither \<open>None\<close>, a \<open>bool\<close> nor a \<open>str\<close>; \<open>textwrap_fill\<close> is
  \<open>textwrap.fill(_, width=110)\<close>; \<open>path_exists\<close> is \<open>os.path.exists\<close>; \<open>model_reply\<close> is the
  call \<open>client.responses.create(model=_, input=_, temperature=0.4).output_text\<close>, with
  \<open>None\<close> when the call fails.
\<close>

record pyenv =
  uni_alnum :: "nat \<Rightarrow> bool"
  json_loads :: "pystr \<Rightarrow> json option"
  py_repr :: "json \<Rightarrow> pystr"
  textwrap_fill :: "pystr \<Rightarrow> pystr"
  path_exists :: "pystr \<Rightarrow> bool"
  model_reply :: "pystr \<Rightarrow> pystr \<Rightarrow> pystr option"

text \<open>\<open>str(v)\<close>.\<close>

fun py_str :: "pyenv \<Rightarrow> json \<Rightarrow> pystr" where
  "py_str env (JStr s) = s"
| "py_str env JNull = py ''None''"
| "py_str env (JBool b) = (if b then py ''True'' else py ''False'')"
| "py_str env v = py_repr env v"

section \<open>Filename sanitization\<close>

text \<open>
  \<open>re.sub(r'[^\w\-_. ]', '_', name)\<close>: every character outside the class of word
  characters, hyphen, underscore, period and space is replaced by an underscore.
\<close>

definition ascii_alnum :: "nat \<Rightarrow> bool" where
  "ascii_alnum c = (48 \<le> c \<and> c \<le> 57 \<or> 65 \<le> c \<and> c \<le> 90 \<or> 97 \<le> c \<and> c \<le> 122)"

definition is_word :: "pyenv \<Rightarrow> nat \<Rightarrow> bool" where
  "is_word env c = (if c < 128 then ascii_alnum c \<or> c = 95 else uni_alnum env c)"

definition allowed_char :: "pyenv \<Rightarrow> nat \<Rightarrow> bool" where
  "allowed_char env c = (is_word env c \<or> c = 45 \<or> c = 95 \<or> c = 46 \<or> c = 32)"

definition sanitize_filename :: "pyenv \<Rightarrow> pystr \<Rightarrow> pystr" where
  "sanitize_filename env name = map (\<lambda>c. if allowed_char env c then c else 95) name"

text \<open>The name \<open>build_pdf\<close> gives its output file: \<open>f"audit_{sanitized_name}.pdf"\<close>.\<close>

definition out_file :: "pyenv \<Rightarrow> pystr \<Rightarrow> pystr" where
  "out_file env website_url = py ''audit_'' @ sanitize_filename env website_url @ py ''.pdf''"

text \<open>An environment for closed examples: nothing exists, nothing parses.\<close>

definition env0 :: pyenv where
  "env0 = \<lparr> uni_alnum = (\<lambda>c. False), json_loads = (\<lambda>s. None), py_repr = (\<lambda>v. []),
            textwrap_fill = (\<lambda>s. s), path_exists = (\<lambda>p. False),
            model_reply = (\<lambda>m p. None) \<rparr>"

section \<open>Grade colours\<close>

type_synonym rgb = "nat \<times> nat \<times> nat"

definition grade_colors :: "(pystr \<times> rgb) list" where
  "grade_colors =
    [ (py ''A+'', (68, 206, 27)),
      (py ''A'', (68, 206, 27)),
      (py ''A-'', (187, 219, 68)),
      (py ''B+'', (187, 219, 68)),
      (py ''B'', (187, 219, 68)),
      (py ''B-'', (247, 227, 121)),
      (py ''C+'', (247, 227, 121)),
      (py ''C'', (247, 227, 121)),
      (py ''C-'', (242, 161, 52)),
      (py ''D+'', (242, 161, 52)),
      (py ''D'', (242, 161, 52)),
      (py ''F'', (229, 31, 31)) ]"

text \<open>
  \<open>grade_colors.get(grade, (28, 28, 28))\<close>. The grade is whatever the report holds; a
  \<open>list\<close> or a \<open>dict\<close> is unhashable and the lookup raises \<open>TypeError\<close>, every other value
  that is not a key of the table gets the default.
\<close>

fun grade_color :: "json \<Rightarrow> error + rgb" where
  "grade_color (JStr g) = Inr (case map_of grade_colors g of Some c \<Rightarrow> c | None \<Rightarrow> (28, 28, 28))"
| "grade_color (JList xs) = Inl TypeError"
| "grade_color (JDict d) = Inl TypeError"
| "grade_color v = Inr (28, 28, 28)"

section \<open>Analyzer\<close>

subsection \<open>Prompt construction\<close>

text \<open>
  \<open>json.dumps\<close> with its default options on the rubric, a \<open>dict\<close> from \<open>str\<close> to \<open>str\<close>:
  strings are quoted with \<open>ensure_ascii\<close> escaping, items are joined by \<open>", "\<close> and key and
  value by \<open>": "\<close>.
\<close>

type_synonym rubric = "(pystr \<times> pystr) list"

definition hex_digit :: "nat \<Rightarrow> nat" where
  "hex_digit d = (if d < 10 then 48 + d else 87 + d)"

definition hex4 :: "nat \<Rightarrow> pystr" where
  "hex4 n = [hex_digit (n div 4096 mod 16), hex_digit (n div 256 mod 16),
             hex_digit (n div 16 mod 16), hex_digit (n mod 16)]"

text \<open>
  The escapes of \<open>ensure_ascii\<close>: \<open>\"\<close>, \<open>\\\<close>, \<open>\b\<close>, \<open>\f\<close>, \<open>\n\<close>, \<open>\r\<close>, \<open>\t\<close>; a printable ASCII
  character stands for itself; any other code point is written \<open>\uXXXX\<close>, as a surrogate
  pair from 65536 on. The backslash is code point 92, \<open>u\<close> is 117.
\<close>

definition escape_char :: "nat \<Rightarrow> pystr" where
  "escape_char c =
    (if c = 34 then [92, 34]
     else if c = 92 then [92, 92]
     else if c = 8 then [92, 98]
     else if c = 12 then [92, 102]
     else if c = 10 then [92, 110]
     else if c = 13 then [92, 114]
     else if c = 9 then [92, 116]
     else if 32 \<le> c \<and> c \<le> 126 then [c]
     else if c < 65536 then [92, 117] @ hex4 c
     else [92, 117] @ hex4 (55296 + (c - 65536) div 1024 mod 1024)
        @ [92, 117] @ hex4 (56320 + (c - 65536) mod 1024))"

definition encode_basestring_ascii :: "pystr \<Rightarrow> pystr" where
  "encode_basestring_ascii s = [34] @ concat (map escape_char s) @ [34]"

definition dumps_item :: "pystr \<times> pystr \<Rightarrow> pystr" where
  "dumps_item kv = encode_basestring_ascii (fst kv) @ py '': '' @ encode_basestring_ascii (snd kv)"

fun join :: "pystr \<Rightarrow> pystr list \<Rightarrow> pystr" where
  "join sep [] = []"
| "join sep [x] = x"
| "join sep (x # y # ys) = x @ sep @ join sep (y # ys)"

definition json_dumps :: "rubric \<Rightarrow> pystr" where
  "json_dumps r = py ''{'' @ join (py '', '') (map dumps_item r) @ py ''}''"

definition build_prompt :: "pystr \<Rightarrow> rubric \<Rightarrow> pystr" where
  "build_prompt text r =
     py ''Analyze the following website text for Brand, Content, Website, and Marketing:''
     @ [10, 10] @ text @ [10, 10]
     @ py ''Use this rubric: '' @ json_dumps r @ [10]
     @ py ''Return STRICT JSON ONLY with keys: Brand, Content, Website, Marketing.'' @ [10]
     @ py ''Each key must contain: grade (A+ to F), reasoning (string), quick_wins (list of strings).''
     @ py ''Provide a thoroughly detailed paragraph and actionable recommendations in the quick wins section and examples for each section''"

subsection \<open>Parsing the reply\<close>

text \<open>
  \<open>re.search(r"(\{.*\})", raw, re.DOTALL)\<close>: the leftmost match starts at the first
  \<open>{\<close> that has a \<open>}\<close> after it, and the greedy \<open>.*\<close> runs to the last \<open>}\<close> of the reply.
  If the first \<open>{\<close> has no \<open>}\<close> after it, no later one has, and there is no match.
\<close>

definition upto_last :: "nat \<Rightarrow> pystr \<Rightarrow> pystr" where
  "upto_last c s = rev (dropWhile (\<lambda>x. x \<noteq> c) (rev s))"

definition json_match :: "pystr \<Rightarrow> pystr option" where
  "json_match raw =
    (case dropWhile (\<lambda>x. x \<noteq> 123) raw of
       [] \<Rightarrow> None
     | b # rest \<Rightarrow> if 125 \<in> set rest then Some (b # upto_last 125 rest) else None)"

definition fallback :: "pystr \<Rightarrow> json" where
  "fallback raw = JDict [(py ''error'', JStr (py ''Could not parse JSON'')), (py ''raw'', JStr raw)]"

text \<open>The \<open>try\<close> block of \<open>analyze\<close>, on the reply text.\<close>

definition parse_reply :: "pyenv \<Rightarrow> pystr \<Rightarrow> json" where
  "parse_reply env raw =
    (case json_match raw of
       Some region \<Rightarrow> (case json_loads env region of Some v \<Rightarrow> v | None \<Rightarrow> fallback raw)
     | None \<Rightarrow> fallback raw)"

text \<open>\<open>analyze\<close>: a failure of the model call is not caught.\<close>

definition analyze :: "pyenv \<Rightarrow> pystr \<Rightarrow> rubric \<Rightarrow> pystr \<Rightarrow> error + json" where
  "analyze env text r model =
    (case model_reply env model (build_prompt text r) of
       None \<Rightarrow> Inl ClientError
     | Some raw \<Rightarrow> Inr (parse_reply env raw))"

section \<open>Renderer\<close>

text \<open>
  \<open>str.splitlines()\<close>: a line ends at \<open>\n\<close>, \<open>\r\<close>, \<open>\r\n\<close>, \<open>\v\<close>, \<open>\f\<close>, the separators 28 to
  30, NEL (133) and the line and paragraph separators 8232 and 8233; the line breaks are
  dropped, and a final line break opens no empty last line.
\<close>

definition is_linebreak :: "nat \<Rightarrow> bool" where
  "is_linebreak c = (c \<in> {10, 11, 12, 13, 28, 29, 30, 133, 8232, 8233})"

fun splitlines_from :: "pystr \<Rightarrow> pystr \<Rightarrow> pystr list" where
  "splitlines_from cur [] = (if cur = [] then [] else [rev cur])"
| "splitlines_from cur (c # cs) =
    (if is_linebreak c
     then rev cur # splitlines_from [] (if c = 13 \<and> cs \<noteq> [] \<and> hd cs = 10 then tl cs else cs)
     else splitlines_from (c # cur) cs)"

definition splitlines :: "pystr \<Rightarrow> pystr list" where
  "splitlines s = splitlines_from [] s"

text \<open>
  The calls \<open>build_pdf\<close> makes on its \<open>FPDF\<close> object, in order. \<open>YStart\<close> stands for
  \<open>y_start\<close>, the value the last \<open>get_y()\<close> returned.
\<close>

datatype ypos = YAt nat | YStart

datatype align = AlignDefault | AlignR

datatype pdf_call =
    AddPage
  | SetAutoPageBreak bool nat
  | SetFillColor nat nat nat
  | Rect nat nat nat nat pystr
  | AddFont pystr pystr pystr
  | Image pystr nat ypos nat
  | Ln nat
  | GetY
  | SetFont pystr pystr nat
  | SetTextColor rgb
  | SetXY nat ypos
  | SetX nat
  | Cell nat nat json bool align
  | MultiCell nat nat pystr
  | Output pystr

text \<open>\<open>f and os.path.exists(f)\<close> for an argument that is \<open>None\<close> or a \<open>str\<close>.\<close>

definition given :: "pystr option \<Rightarrow> bool" where
  "given f = (case f of None \<Rightarrow> False | Some p \<Rightarrow> p \<noteq> [])"

definition has_file :: "pyenv \<Rightarrow> pystr option \<Rightarrow> bool" where
  "has_file env f = (case f of None \<Rightarrow> False | Some p \<Rightarrow> p \<noteq> [] \<and> path_exists env p)"

definition default_icon_paths :: "(pystr \<times> pystr) list" where
  "default_icon_paths =
    [ (py ''Brand'', py ''brand-icon.png''),
      (py ''Content'', py ''content-icon.png''),
      (py ''Website'', py ''build-icon.png''),
      (py ''Marketing'', py ''grow-icon.png'') ]"

text \<open>The three values a section is drawn from (lines 141 to 148 of the source).\<close>

record section_fields =
  grade :: json
  reasoning :: json
  quick_wins :: json

fun fields_of :: "pyenv \<Rightarrow> json \<Rightarrow> section_fields" where
  "fields_of env (JDict d) =
     \<lparr> grade = dict_get d (py ''grade'') (JStr (py ''N/A'')),
       reasoning = dict_get d (py ''reasoning'') (JStr []),
       quick_wins = dict_get d (py ''quick_wins'') (JList []) \<rparr>"
| "fields_of env details =
     \<lparr> grade = JStr (py ''N/A''),
       reasoning = JStr (py_str env details),
       quick_wins = JList [] \<rparr>"

text \<open>
  What \<open>for q in quick_wins\<close> iterates: the elements of a list, the characters of a
  string, the keys of a dict; any other value is not iterable.
\<close>

fun iterate :: "json \<Rightarrow> error + json list" where
  "iterate (JList xs) = Inr xs"
| "iterate (JStr s) = Inr (map (\<lambda>c. JStr [c]) s)"
| "iterate (JDict d) = Inr (map (\<lambda>kv. JStr (fst kv)) d)"
| "iterate v = Inl TypeError"

definition heading_font_calls :: "pyenv \<Rightarrow> pystr option \<Rightarrow> nat \<Rightarrow> pdf_call list" where
  "heading_font_calls env heading_font pt =
    (if has_file env heading_font then [SetFont (py ''HeadingFont'') [] pt]
     else [SetFont (py ''Helvetica'') (py ''B'') pt])"

definition body_font_calls :: "pyenv \<Rightarrow> pystr option \<Rightarrow> nat \<Rightarrow> pdf_call list" where
  "body_font_calls env body_font pt =
    (if has_file env body_font then [SetFont (py ''BodyFont'') [] pt]
     else [SetFont (py ''Helvetica'') [] pt])"

text \<open>Lines 150 to 166: the icon and the title of a section.\<close>

definition title_calls :: "pyenv \<Rightarrow> pystr option \<Rightarrow> pystr option \<Rightarrow> pystr \<Rightarrow> pdf_call list" where
  "title_calls env heading_font icon_file section =
     [GetY]
     @ (if has_file env icon_file then [Image (the icon_file) 20 YStart 8] else [])
     @ heading_font_calls env heading_font 16
     @ [SetTextColor (28, 28, 28),
        SetXY (20 + (if given icon_file then 8 + 4 else 0)) YStart,
        Cell 0 8 (JStr (section @ py '' - '')) False AlignDefault]"

text \<open>Lines 168 to 173: the grade badge; the colour lookup may raise.\<close>

definition grade_calls :: "json \<Rightarrow> error + pdf_call list" where
  "grade_calls g =
    (case grade_color g of
       Inl e \<Rightarrow> Inl e
     | Inr col \<Rightarrow> Inr [SetTextColor col, SetXY (20 + 170 - 15) YStart, Cell 15 8 g True AlignR, Ln 6])"

text \<open>
  Lines 175 to 184: the reasoning paragraph; \<open>reasoning.splitlines()\<close> exists on a \<open>str\<close>
  only.
\<close>

definition reasoning_calls :: "pyenv \<Rightarrow> pystr option \<Rightarrow> json \<Rightarrow> error + pdf_call list" where
  "reasoning_calls env body_font r =
    (case r of
       JStr text \<Rightarrow>
         Inr (body_font_calls env body_font 11
              @ [SetTextColor (28, 28, 28), SetX 20,
                 MultiCell 170 6 (join (py '' '') (splitlines text)), Ln 3])
     | _ \<Rightarrow> Inl AttributeError)"

text \<open>Lines 186 to 201: the quick wins block, drawn only for a true \<open>quick_wins\<close>.\<close>

definition bullet_calls :: "pyenv \<Rightarrow> json \<Rightarrow> pdf_call list" where
  "bullet_calls env q = [SetX 20, MultiCell 170 6 (textwrap_fill env (py ''- '' @ py_str env q))]"

definition quick_wins_calls ::
  "pyenv \<Rightarrow> pystr option \<Rightarrow> pystr option \<Rightarrow> json \<Rightarrow> error + pdf_call list" where
  "quick_wins_calls env heading_font body_font qw =
    (if truthy qw then
       (case iterate qw of
          Inl e \<Rightarrow> Inl e
        | Inr qs \<Rightarrow>
            Inr (heading_font_calls env heading_font 13
                 @ [SetTextColor (28, 28, 28), SetX 20,
                    Cell 0 6 (JStr (py ''Quick Wins:'')) True AlignDefault]
                 @ body_font_calls env body_font 10
                 @ [SetTextColor (28, 28, 28)]
                 @ concat (map (bullet_calls env) qs)
                 @ [Ln 6]))
     else Inr [])"

text \<open>One pass of the loop over \<open>audit.items()\<close>.\<close>

definition section_calls ::
  "pyenv \<Rightarrow> pystr option \<Rightarrow> pystr option \<Rightarrow> (pystr \<times> pystr) list \<Rightarrow> pystr \<times> json
     \<Rightarrow> error + pdf_call list" where
  "section_calls env heading_font body_font icon_paths item =
    (let f = fields_of env (snd item) in
     case grade_calls (grade f) of
       Inl e \<Rightarrow> Inl e
     | Inr gc \<Rightarrow>
        (case reasoning_calls env body_font (reasoning f) of
           Inl e \<Rightarrow> Inl e
         | Inr rc \<Rightarrow>
            (case quick_wins_calls env heading_font body_font (quick_wins f) of
               Inl e \<Rightarrow> Inl e
             | Inr qc \<Rightarrow>
                 Inr (title_calls env heading_font (map_of icon_paths (fst item)) (fst item)
                      @ gc @ rc @ qc))))"

fun sections_calls ::
  "pyenv \<Rightarrow> pystr option \<Rightarrow> pystr option \<Rightarrow> (pystr \<times> pystr) list \<Rightarrow> (pystr \<times> json) list
     \<Rightarrow> error + pdf_call list" where
  "sections_calls env heading_font body_font icon_paths [] = Inr []"
| "sections_calls env heading_font body_font icon_paths (item # items) =
    (case section_calls env heading_font body_font icon_paths item of
       Inl e \<Rightarrow> Inl e
     | Inr cs \<Rightarrow>
        (case sections_calls env heading_font body_font icon_paths items of
           Inl e \<Rightarrow> Inl e
         | Inr rest \<Rightarrow> Inr (cs @ rest)))"

text \<open>Lines 116 to 134: the page, the fonts and the header image.\<close>

definition preamble_calls ::
  "pyenv \<Rightarrow> pystr option \<Rightarrow> pystr option \<Rightarrow> pystr option \<Rightarrow> pdf_call list" where
  "preamble_calls env header_image heading_font body_font =
     [AddPage, SetAutoPageBreak True 15, SetFillColor 249 249 250, Rect 0 0 210 297 (py ''F'')]
     @ (if has_file env heading_font then [AddFont (py ''HeadingFont'') [] (the heading_font)] else [])
     @ (if has_file env body_font then [AddFont (py ''BodyFont'') [] (the body_font)] else [])
     @ (if has_file env header_image then [Image (the header_image) 0 (YAt 0) 210] else [])
     @ [Ln 40]"

text \<open>
  \<open>build_pdf\<close>: the calls made on the document, ending with \<open>output(out_file)\<close>, and the
  name returned. \<open>audit.items()\<close> exists on a \<open>dict\<close> only. An exception leaves no output.
\<close>

record pdf_args =
  header_image :: "pystr option"
  heading_font :: "pystr option"
  body_font :: "pystr option"
  icon_paths :: "(pystr \<times> pystr) list option"

definition default_args :: pdf_args where
  "default_args =
    \<lparr> header_image = Some (py ''Growth_Marketing_Audit_Header.png''),
      heading_font = Some (py ''Montserrat-ExtraBold.ttf''),
      body_font = Some (py ''Montserrat-Medium.ttf''),
      icon_paths = None \<rparr>"

definition build_pdf :: "pyenv \<Rightarrow> json \<Rightarrow> pystr \<Rightarrow> pdf_args \<Rightarrow> error + (pdf_call list \<times> pystr)" where
  "build_pdf env audit website_url args =
    (case audit of
       JDict items \<Rightarrow>
        (case sections_calls env (heading_font args) (body_font args)
                (case icon_paths args of None \<Rightarrow> default_icon_paths | Some ip \<Rightarrow> ip) items of
           Inl e \<Rightarrow> Inl e
         | Inr cs \<Rightarrow>
             Inr (preamble_calls env (header_image args) (heading_font args) (body_font args)
                  @ cs @ [Output (out_file env website_url)],
                  out_file env website_url))
     | _ \<Rightarrow> Inl AttributeError)"

text \<open>The section names drawn, the files written and the grades drawn by a run.\<close>

fun title_of :: "pdf_call \<Rightarrow> pystr list" where
  "title_of (Cell w h (JStr t) False a) = [t]"
| "title_of c = []"

fun written :: "pdf_call \<Rightarrow> pystr list" where
  "written (Output f) = [f]"
| "written c = []"

fun badge_of :: "pdf_call \<Rightarrow> json list" where
  "badge_of (Cell w h g ln AlignR) = [g]"
| "badge_of c = []"

text \<open>What a run of \<open>build_pdf\<close> shows: the titles drawn, the badges drawn, the files
  written and the name returned.\<close>

definition titles_drawn :: "error + (pdf_call list \<times> pystr) \<Rightarrow> pystr list" where
  "titles_drawn r = (case r of Inl e \<Rightarrow> [] | Inr out \<Rightarrow> concat (map title_of (fst out)))"

definition badges_drawn :: "error + (pdf_call list \<times> pystr) \<Rightarrow> json list" where
  "badges_drawn r = (case r of Inl e \<Rightarrow> [] | Inr out \<Rightarrow> concat (map badge_of (fst out)))"

definition files_written :: "error + (pdf_call list \<times> pystr) \<Rightarrow> pystr list" where
  "files_written r = (case r of Inl e \<Rightarrow> [] | Inr out \<Rightarrow> concat (map written (fst out)))"

definition returned :: "error + (pdf_call list \<times> pystr) \<Rightarrow> pystr option" where
  "returned r = (case r of Inl e \<Rightarrow> None | Inr out \<Rightarrow> Some (snd out))"

text \<open>An environment whose \<open>json.loads\<close> knows the empty object only.\<close>

definition env1 :: pyenv where
  "env1 = env0 \<lparr> json_loads := (\<lambda>s. if s = py ''{}'' then Some (JDict []) else None) \<rparr>"

text \<open>The fixed text of the prompt before the page text and after the rubric.\<close>

definition prompt_head :: pystr where
  "prompt_head = py ''Analyze the following website text for Brand, Content, Website, and Marketing:'' @ [10, 10]"

definition prompt_tail :: pystr where
  "prompt_tail = [10]
     @ py ''Return STRICT JSON ONLY with keys: Brand, Content, Website, Marketing.'' @ [10]
     @ py ''Each key must contain: grade (A+ to F), reasoning (string), quick_wins (list of strings).''
     @ py ''Provide a thoroughly detailed paragraph and actionable recommendations in the quick wins section and examples for each section''"

text \<open>A well-formed report for closed examples: four sections of grade \<open>A\<close>.\<close>

definition sample_section :: json where
  "sample_section = JDict [(py ''grade'', JStr (py ''A'')), (py ''reasoning'', JStr (py ''x'')),
                           (py ''quick_wins'', JList [])]"

definition sample_report :: json where
  "sample_report = JDict [(py ''Brand'', sample_section), (py ''Content'', sample_section),
                          (py ''Website'', sample_section), (py ''Marketing'', sample_section)]"

section \<open>Properties of filename sanitization\<close>

lemma allowed_underscore: "allowed_char env 95"
  by (simp add: allowed_char_def)

lemma sanitize_allowed: "c \<in> set (sanitize_filename env name) \<Longrightarrow> allowed_char env c"
  by (auto simp: sanitize_filename_def allowed_underscore)

lemma sanitize_fix: "\<forall>c\<in>set s. allowed_char env c \<Longrightarrow> sanitize_filename env s = s"
  by (induction s) (auto simp: sanitize_filename_def)

lemma affix_allowed: "c \<in> set (py ''audit_'') \<union> set (py ''.pdf'') \<Longrightarrow> allowed_char env c"
  by (auto simp: py_def allowed_char_def is_word_def ascii_alnum_def)

text \<open>
  C5, as the claim states it, fails in its second half: a disallowed character is not
  stripped (removed) from the site name. On \<open>a/b\<close> the result is \<open>a_b\<close>, not \<open>ab\<close>.
\<close>

theorem sanitize_filename_strips_counterexample:
  "sanitize_filename env0 (py ''a/b'') = py ''a_b''
   \<and> sanitize_filename env0 (py ''a/b'') \<noteq> filter (allowed_char env0) (py ''a/b'')"
  by (simp add: sanitize_filename_def allowed_char_def is_word_def ascii_alnum_def py_def env0_def)

text \<open>
  C5 (amended): for every site name, \<open>sanitize_filename\<close> keeps the length of the name,
  keeps every allowed character in its place and puts an underscore in the place of every
  other character; so its result, and the output filename \<open>audit_<result>.pdf\<close> built from
  it, contain only word characters, hyphens, underscores, periods and spaces.
\<close>

theorem sanitize_filename_replaces:
  "length (sanitize_filename env name) = length name
   \<and> (\<forall>i<length name. sanitize_filename env name ! i
          = (if allowed_char env (name ! i) then name ! i else 95))
   \<and> (\<forall>c\<in>set (sanitize_filename env name). allowed_char env c)
   \<and> (\<forall>c\<in>set (out_file env name). allowed_char env c)"
proof -
  have "\<forall>c\<in>set (out_file env name). allowed_char env c"
    using affix_allowed [of _ env] sanitize_allowed [of _ env name]
    unfolding out_file_def by auto
  then show ?thesis
    by (simp add: sanitize_allowed) (simp add: sanitize_filename_def)
qed

theorem sanitize_filename_replaces_witness:
  "sanitize_filename env0 (py ''a/b:c d'') = py ''a_b_c d''
   \<and> length (sanitize_filename env0 (py ''a/b:c d'')) = length (py ''a/b:c d'')
   \<and> list_all (allowed_char env0) (sanitize_filename env0 (py ''a/b:c d''))
   \<and> list_all (allowed_char env0) (out_file env0 (py ''a/b:c d''))"
proof -
  have "sanitize_filename env0 (py ''a/b:c d'') = py ''a_b_c d''"
    by (simp add: sanitize_filename_def allowed_char_def is_word_def ascii_alnum_def py_def
        env0_def)
  with sanitize_filename_replaces [of env0 "py ''a/b:c d''"] show ?thesis
    by (simp add: list_all_iff)
qed

text \<open>
  C9: \<open>sanitize_filename\<close> is idempotent: every character of its result, the underscore
  it substitutes included, is in the allowed class, so a second pass changes nothing.
\<close>

theorem sanitize_filename_idempotent:
  "sanitize_filename env (sanitize_filename env s) = sanitize_filename env s"
  by (rule sanitize_fix) (simp add: sanitize_allowed)

section \<open>Properties of the grade colours\<close>

lemma grade_keys: "map fst grade_colors =
    [py ''A+'', py ''A'', py ''A-'', py ''B+'', py ''B'', py ''B-'',
     py ''C+'', py ''C'', py ''C-'', py ''D+'', py ''D'', py ''F'']"
  by (simp add: grade_colors_def)

text \<open>
  C4: the table has the twelve grade tokens \<open>A+\<close> down to \<open>F\<close> as keys, in five buckets
  \<open>{A+, A}\<close>, \<open>{A-, B+, B}\<close>, \<open>{B-, C+, C}\<close>, \<open>{C-, D+, D}\<close>, \<open>{F}\<close> of one colour each; so \<open>A+\<close>
  and \<open>A\<close> get the same colour; the token \<open>Z\<close>, and every token that is not a key of the
  table, gets the near-black default \<open>(28, 28, 28)\<close> and the lookup does not fail.
\<close>

theorem grade_color_table:
  "map fst grade_colors =
     [py ''A+'', py ''A'', py ''A-'', py ''B+'', py ''B'', py ''B-'',
      py ''C+'', py ''C'', py ''C-'', py ''D+'', py ''D'', py ''F'']
   \<and> map (\<lambda>g. grade_color (JStr g)) [py ''A+'', py ''A''] = replicate 2 (Inr (68, 206, 27))
   \<and> map (\<lambda>g. grade_color (JStr g)) [py ''A-'', py ''B+'', py ''B''] = replicate 3 (Inr (187, 219, 68))
   \<and> map (\<lambda>g. grade_color (JStr g)) [py ''B-'', py ''C+'', py ''C''] = replicate 3 (Inr (247, 227, 121))
   \<and> map (\<lambda>g. grade_color (JStr g)) [py ''C-'', py ''D+'', py ''D''] = replicate 3 (Inr (242, 161, 52))
   \<and> grade_color (JStr (py ''F'')) = Inr (229, 31, 31)
   \<and> grade_color (JStr (py ''A+'')) = grade_color (JStr (py ''A''))
   \<and> grade_color (JStr (py ''Z'')) = Inr (28, 28, 28)
   \<and> (\<forall>g. g \<notin> set (map fst grade_colors) \<longrightarrow> grade_color (JStr g) = Inr (28, 28, 28))"
proof -
  have dflt: "grade_color (JStr g) = Inr (28, 28, 28)" if "g \<notin> set (map fst grade_colors)" for g
  proof -
    from that have "map_of grade_colors g = None"
      by (simp add: map_of_eq_None_iff)
    then show ?thesis by simp
  qed
  have tab: "map (\<lambda>g. grade_color (JStr g)) (map fst grade_colors)
      = replicate 2 (Inr (68, 206, 27)) @ replicate 3 (Inr (187, 219, 68))
        @ replicate 3 (Inr (247, 227, 121)) @ replicate 3 (Inr (242, 161, 52))
        @ [Inr (229, 31, 31)]"
    by (simp add: grade_colors_def py_def numeral_eq_Suc)
  have z: "grade_color (JStr (py ''Z'')) = Inr (28, 28, 28)"
    by (simp add: grade_colors_def py_def)
  from tab z dflt show ?thesis
    by (simp add: grade_keys numeral_eq_Suc)
qed

theorem grade_color_table_witness:
  "py ''Z'' \<notin> set (map fst grade_colors) \<and> grade_color (JStr (py ''Z'')) = Inr (28, 28, 28)"
  using grade_color_table by (simp add: grade_colors_def py_def)

section \<open>Properties of the Analyzer\<close>

text \<open>The region found, characterised on the reply.\<close>

lemma upto_last_append:
  "c \<notin> set post \<Longrightarrow> upto_last c (xs @ [c] @ post) = xs @ [c]"
  by (auto simp: upto_last_def dropWhile_append3)

lemma json_match_None_iff:
  "json_match raw = None \<longleftrightarrow> \<not> (\<exists>pre rest. raw = pre @ [123] @ rest \<and> 125 \<in> set rest)"
proof (cases "123 \<in> set raw")
  case False
  then have dw: "dropWhile (\<lambda>x. x \<noteq> 123) raw = []" by auto
  from False have "raw \<noteq> pre @ [123] @ rest" for pre rest by auto
  then show ?thesis unfolding json_match_def dw by simp
next
  case True
  then obtain ys zs where raw: "raw = ys @ 123 # zs" and ys: "123 \<notin> set ys"
    by (auto dest: split_list_first)
  then have dw: "dropWhile (\<lambda>x. x \<noteq> 123) raw = 123 # zs"
    by (auto simp: dropWhile_append3)
  show ?thesis
  proof (cases "125 \<in> set zs")
    case True
    with dw raw show ?thesis by (auto simp: json_match_def)
  next
    case False
    have "125 \<notin> set rest" if "raw = pre @ [123] @ rest" for pre rest
    proof -
      from that raw have "ys @ 123 # zs = pre @ 123 # rest" by simp
      then have "set rest \<subseteq> set zs" using ys
        by (auto simp: append_eq_append_conv2 Cons_eq_append_conv append_eq_Cons_conv)
      with False show ?thesis by auto
    qed
    with dw False show ?thesis by (auto simp: json_match_def)
  qed
qed

lemma json_match_embedded:
  assumes "123 \<notin> set pre" "125 \<notin> set post"
  shows "json_match (pre @ (123 # mid @ [125]) @ post) = Some (123 # mid @ [125])"
proof -
  have "dropWhile (\<lambda>x. x \<noteq> 123) (pre @ (123 # mid @ [125]) @ post) = 123 # mid @ [125] @ post"
    using assms(1) by (auto simp: dropWhile_append3)
  moreover have "upto_last 125 (mid @ [125] @ post) = mid @ [125]"
    using assms(2) by (rule upto_last_append)
  ultimately show ?thesis by (simp add: json_match_def)
qed

text \<open>
  C1: when the reply has no brace-delimited region (\<open>json_match\<close> finds nothing), and when
  the region found fails to deserialize (\<open>json.loads\<close> raises), the parse step returns the
  fallback mapping: \<open>error\<close> holds the non-empty reason \<open>Could not parse JSON\<close>, \<open>raw\<close> holds
  the reply unchanged. \<open>parse_reply\<close> is total, so nothing is raised past it, and \<open>analyze\<close>
  returns this value whenever the model call itself returned the reply.
\<close>

theorem parse_reply_fallback:
  assumes "json_match raw = None
           \<or> (\<exists>region. json_match raw = Some region \<and> json_loads env region = None)"
  shows "parse_reply env raw
           = JDict [(py ''error'', JStr (py ''Could not parse JSON'')), (py ''raw'', JStr raw)]
         \<and> py ''Could not parse JSON'' \<noteq> []
         \<and> (model_reply env model (build_prompt text r) = Some raw
              \<longrightarrow> analyze env text r model = Inr (fallback raw))"
  using assms by (auto simp: parse_reply_def fallback_def analyze_def py_def)

theorem parse_reply_fallback_witness:
  "json_match (py ''Sorry, I cannot help.'') = None
   \<and> parse_reply env0 (py ''Sorry, I cannot help.'')
       = JDict [(py ''error'', JStr (py ''Could not parse JSON'')),
                (py ''raw'', JStr (py ''Sorry, I cannot help.''))]
   \<and> json_match (py ''{oops}'') = Some (py ''{oops}'')
   \<and> json_loads env0 (py ''{oops}'') = None
   \<and> parse_reply env0 (py ''{oops}'')
       = JDict [(py ''error'', JStr (py ''Could not parse JSON'')),
                (py ''raw'', JStr (py ''{oops}''))]"
proof -
  have h: "json_match (py ''Sorry, I cannot help.'') = None"
    by (simp add: json_match_def py_def)
  have m: "json_match (py ''{oops}'') = Some (py ''{oops}'')"
    by (simp add: json_match_def upto_last_def py_def)
  have l: "json_loads env0 (py ''{oops}'') = None"
    by (simp add: env0_def)
  from m l have h2: "json_match (py ''{oops}'') = None
      \<or> (\<exists>region. json_match (py ''{oops}'') = Some region \<and> json_loads env0 region = None)"
    by blast
  from parse_reply_fallback [of "py ''Sorry, I cannot help.''" env0, OF disjI1, OF h]
    parse_reply_fallback [OF h2] h m l
  show ?thesis by blast
qed

text \<open>
  C2, as the claim states it, fails: the region parsed runs from the first \<open>{\<close> of the
  reply to its last \<open>}\<close>, so prose that has a brace of its own is not ignored. The reply
  \<open>Here: {} (see {notes})\<close> embeds the valid object \<open>{}\<close>; the region extracted is
  \<open>{} (see {notes}\<close>, which is not that object and does not parse, and the result is the
  fallback mapping.
\<close>

theorem parse_reply_embedded_counterexample:
  "json_loads env1 (py ''{}'') = Some (JDict [])
   \<and> json_match (py ''Here: '' @ py ''{}'' @ py '' (see {notes})'') = Some (py ''{} (see {notes}'')
   \<and> json_match (py ''Here: '' @ py ''{}'' @ py '' (see {notes})'') \<noteq> Some (py ''{}'')
   \<and> parse_reply env1 (py ''Here: '' @ py ''{}'' @ py '' (see {notes})'')
        = fallback (py ''Here: {} (see {notes})'')
   \<and> parse_reply env1 (py ''Here: '' @ py ''{}'' @ py '' (see {notes})'') \<noteq> JDict []"
  by (simp add: parse_reply_def json_match_def upto_last_def env1_def env0_def fallback_def py_def)

text \<open>
  C2 (amended): for every reply made of a valid JSON object (a text from \<open>{\<close> to \<open>}\<close> that
  \<open>json.loads\<close> accepts) between a leading prose without \<open>{\<close> and a trailing prose without
  \<open>}\<close>, the Analyzer extracts exactly that object and returns what \<open>json.loads\<close> gives for
  it, as it is: nothing is checked about the four expected keys (the witness is \<open>{}\<close>).
\<close>

theorem parse_reply_embedded:
  assumes "json_loads env (123 # mid @ [125]) = Some v"
    and "123 \<notin> set pre" and "125 \<notin> set post"
  shows "json_match (pre @ (123 # mid @ [125]) @ post) = Some (123 # mid @ [125])
         \<and> parse_reply env (pre @ (123 # mid @ [125]) @ post) = v"
  using assms json_match_embedded [of pre post mid] by (simp add: parse_reply_def)

theorem parse_reply_embedded_witness:
  "json_loads env1 (123 # [] @ [125]) = Some (JDict [])
   \<and> 123 \<notin> set (py ''Result: '') \<and> 125 \<notin> set (py '' Done.'')
   \<and> parse_reply env1 (py ''Result: '' @ (123 # [] @ [125]) @ py '' Done.'') = JDict []"
proof -
  have a: "json_loads env1 (123 # [] @ [125]) = Some (JDict [])"
    by (simp add: env1_def env0_def py_def)
  have b: "123 \<notin> set (py ''Result: '')" by (simp add: py_def)
  have c: "125 \<notin> set (py '' Done.'')" by (simp add: py_def)
  from parse_reply_embedded [OF a b c] a b c show ?thesis by simp
qed

section \<open>Properties of the prompt\<close>

lemma sublist_mid: "sublist xs (ps @ xs @ ss)"
  unfolding sublist_def by blast

lemma sublist_trans': "sublist xs ys \<Longrightarrow> sublist ys zs \<Longrightarrow> sublist xs zs"
  by (rule sublist_order.order.trans)

lemma join_sublist: "x \<in> set xs \<Longrightarrow> sublist x (join sep xs)"
proof (induction sep xs rule: join.induct)
  case (1 sep)
  then show ?case by simp
next
  case (2 sep y)
  then show ?case by simp
next
  case (3 sep y z zs)
  show ?case
  proof (cases "x = y")
    case True
    then show ?thesis using sublist_mid [of x "[]" "sep @ join sep (z # zs)"] by simp
  next
    case False
    with 3 have "sublist x (join sep (z # zs))" by simp
    then obtain p s where "join sep (z # zs) = p @ x @ s"
      by (auto simp: sublist_def)
    then have "join sep (y # z # zs) = (y @ sep @ p) @ x @ s" by simp
    then show ?thesis by (simp only: sublist_mid)
  qed
qed

lemma dumps_item_sublist: "kv \<in> set r \<Longrightarrow> sublist (dumps_item kv) (json_dumps r)"
proof -
  assume "kv \<in> set r"
  then have "sublist (dumps_item kv) (join (py '', '') (map dumps_item r))"
    by (intro join_sublist) simp
  then show ?thesis
    unfolding json_dumps_def
    by (meson sublist_mid sublist_trans')
qed

lemma build_prompt_shape:
  "build_prompt text r
     = prompt_head @ text @ ([10, 10] @ py ''Use this rubric: '') @ json_dumps r @ prompt_tail"
  by (simp add: build_prompt_def prompt_head_def prompt_tail_def)

lemma build_prompt_text: "sublist text (build_prompt text r)"
  unfolding build_prompt_shape by (rule sublist_mid)

lemma build_prompt_rubric: "sublist (json_dumps r) (build_prompt text r)"
proof -
  have "build_prompt text r
     = (prompt_head @ text @ [10, 10] @ py ''Use this rubric: '') @ json_dumps r @ prompt_tail"
    by (simp add: build_prompt_shape)
  then show ?thesis by (simp only: sublist_mid)
qed

text \<open>
  C7: for every page text and every rubric, the prompt contains the whole page text as it
  is, the serialized rubric, and with it the serialized form \<open>"key": "value"\<close> of every
  rubric entry. \<open>build_prompt\<close> has these two arguments and nothing else to depend on: the
  prompt is the fixed head, the text, the fixed words \<open>Use this rubric: \<close>, the serialized
  rubric and the fixed tail.
\<close>

theorem build_prompt_contains:
  "sublist text (build_prompt text r)
   \<and> sublist (json_dumps r) (build_prompt text r)
   \<and> (\<forall>kv\<in>set r. sublist (dumps_item kv) (build_prompt text r))
   \<and> build_prompt text r
       = prompt_head @ text @ [10, 10] @ py ''Use this rubric: '' @ json_dumps r @ prompt_tail"
proof -
  have "sublist (dumps_item kv) (build_prompt text r)" if "kv \<in> set r" for kv
    using dumps_item_sublist [OF that] build_prompt_rubric by (rule sublist_trans')
  then show ?thesis
    using build_prompt_text build_prompt_rubric by (simp add: build_prompt_shape)
qed

theorem build_prompt_contains_witness:
  "sublist (dumps_item (py ''Content'', [233]))
     (build_prompt (py ''Hello'') [(py ''Brand'', py ''clear?''), (py ''Content'', [233])])
   \<and> dumps_item (py ''Content'', [233])
       = [34] @ py ''Content'' @ [34] @ py '': '' @ [34, 92] @ py ''u00e9'' @ [34]"
proof -
  have d: "dumps_item (py ''Content'', [233])
       = [34] @ py ''Content'' @ [34] @ py '': '' @ [34, 92] @ py ''u00e9'' @ [34]"
    by (simp add: dumps_item_def encode_basestring_ascii_def escape_char_def hex4_def
        hex_digit_def py_def)
  have m: "(py ''Content'', [233]) \<in> set [(py ''Brand'', py ''clear?''), (py ''Content'', [233])]"
    by simp
  from build_prompt_contains
    [of "py ''Hello''" "[(py ''Brand'', py ''clear?''), (py ''Content'', [233])]"] m
  have "sublist (dumps_item (py ''Content'', [233]))
     (build_prompt (py ''Hello'') [(py ''Brand'', py ''clear?''), (py ''Content'', [233])])"
    by blast
  with d show ?thesis by blast
qed

section \<open>Properties of the Renderer\<close>

lemma font_calls_obs:
  "concat (map title_of (heading_font_calls env hf n)) = []"
  "concat (map title_of (body_font_calls env bf n)) = []"
  "concat (map badge_of (heading_font_calls env hf n)) = []"
  "concat (map badge_of (body_font_calls env bf n)) = []"
  "concat (map written (heading_font_calls env hf n)) = []"
  "concat (map written (body_font_calls env bf n)) = []"
  by (simp_all add: heading_font_calls_def body_font_calls_def)

lemma title_calls_obs:
  "concat (map title_of (title_calls env hf icon s)) = [s @ py '' - '']"
  "concat (map badge_of (title_calls env hf icon s)) = []"
  "concat (map written (title_calls env hf icon s)) = []"
  by (simp_all add: title_calls_def font_calls_obs del: concat_eq_Nil_conv)

lemma grade_calls_obs:
  assumes "grade_calls g = Inr gc"
  shows "concat (map title_of gc) = []" "concat (map badge_of gc) = [g]"
    "concat (map written gc) = []"
  using assms by (auto simp: grade_calls_def split: sum.splits)

lemma reasoning_calls_obs:
  assumes "reasoning_calls env bf r = Inr rc"
  shows "concat (map title_of rc) = []" "concat (map badge_of rc) = []"
    "concat (map written rc) = []"
  using assms by (auto simp: reasoning_calls_def font_calls_obs simp del: concat_eq_Nil_conv split: json.splits)

lemma bullets_obs:
  "concat (map title_of (concat (map (bullet_calls env) qs))) = []"
  "concat (map badge_of (concat (map (bullet_calls env) qs))) = []"
  "concat (map written (concat (map (bullet_calls env) qs))) = []"
  by (induction qs) (simp_all add: bullet_calls_def del: concat_eq_Nil_conv)

lemma quick_wins_calls_obs:
  assumes "quick_wins_calls env hf bf q = Inr qc"
  shows "concat (map title_of qc) = []" "concat (map badge_of qc) = []"
    "concat (map written qc) = []"
  using assms
  by (auto simp: quick_wins_calls_def font_calls_obs bullets_obs simp del: concat_eq_Nil_conv split: if_splits sum.splits)

lemma section_calls_obs:
  assumes "section_calls env hf bf ip item = Inr cs"
  shows "concat (map title_of cs) = [fst item @ py '' - '']"
    and "concat (map badge_of cs) = [grade (fields_of env (snd item))]"
    and "concat (map written cs) = []"
  using assms
  by (auto simp: section_calls_def Let_def title_calls_obs grade_calls_obs reasoning_calls_obs
      quick_wins_calls_obs simp del: concat_eq_Nil_conv split: sum.splits)

lemma sections_calls_obs:
  assumes "sections_calls env hf bf ip items = Inr cs"
  shows "concat (map title_of cs) = map (\<lambda>item. fst item @ py '' - '') items
    \<and> concat (map badge_of cs) = map (\<lambda>item. grade (fields_of env (snd item))) items
    \<and> concat (map written cs) = []"
  using assms
proof (induction items arbitrary: cs)
  case Nil
  then show ?case by simp
next
  case (Cons item items)
  from Cons.prems obtain c rest where
    c: "section_calls env hf bf ip item = Inr c" and
    rest: "sections_calls env hf bf ip items = Inr rest" and cs: "cs = c @ rest"
    by (auto split: sum.splits)
  from Cons.IH [OF rest] section_calls_obs [OF c] cs show ?case by (simp del: concat_eq_Nil_conv)
qed

lemma preamble_obs:
  "concat (map title_of (preamble_calls env hi hf bf)) = []"
  "concat (map badge_of (preamble_calls env hi hf bf)) = []"
  "concat (map written (preamble_calls env hi hf bf)) = []"
  by (simp_all add: preamble_calls_def)

lemma na_not_a_key: "map_of grade_colors (py ''N/A'') = None"
  by (simp add: grade_colors_def py_def)

lemma na_color: "grade_color (JStr (py ''N/A'')) = Inr (28, 28, 28)"
  by (simp add: na_not_a_key)

lemma na_calls:
  "grade_calls (JStr (py ''N/A''))
     = Inr [SetTextColor (28, 28, 28), SetXY 175 YStart, Cell 15 8 (JStr (py ''N/A'')) True AlignR, Ln 6]"
  by (simp add: grade_calls_def na_not_a_key)

lemma no_quick_wins: "quick_wins_calls env hf bf (JList []) = Inr []"
  by (simp add: quick_wins_calls_def)

text \<open>
  C6: for a section entry whose value is not a mapping, the grade is the sentinel \<open>N/A\<close>,
  which is drawn in the neutral colour \<open>(28, 28, 28)\<close>, the reasoning is the whole value
  stringified, \<open>str(details)\<close>, and the list of quick wins is empty: the section is drawn
  as its title, the \<open>N/A\<close> badge and the reasoning paragraph, with no quick wins block.
\<close>

theorem fields_of_non_dict:
  assumes "\<forall>d. details \<noteq> JDict d"
  shows "fields_of env details
           = \<lparr> grade = JStr (py ''N/A''), reasoning = JStr (py_str env details),
               quick_wins = JList [] \<rparr>
         \<and> grade_color (JStr (py ''N/A'')) = Inr (28, 28, 28)
         \<and> section_calls env hf bf ip (name, details)
             = Inr (title_calls env hf (map_of ip name) name
                    @ [SetTextColor (28, 28, 28), SetXY 175 YStart,
                       Cell 15 8 (JStr (py ''N/A'')) True AlignR, Ln 6]
                    @ body_font_calls env bf 11
                    @ [SetTextColor (28, 28, 28), SetX 20,
                       MultiCell 170 6 (join (py '' '') (splitlines (py_str env details))), Ln 3])"
proof -
  from assms have f: "fields_of env details
           = \<lparr> grade = JStr (py ''N/A''), reasoning = JStr (py_str env details),
               quick_wins = JList [] \<rparr>"
    by (cases details) simp_all
  then show ?thesis
    by (simp add: na_not_a_key section_calls_def na_calls reasoning_calls_def no_quick_wins)
qed

theorem fields_of_non_dict_witness:
  "(\<forall>d. JStr (py ''line one'') \<noteq> JDict d)
   \<and> fields_of env0 (JStr (py ''line one''))
       = \<lparr> grade = JStr (py ''N/A''), reasoning = JStr (py ''line one''), quick_wins = JList [] \<rparr>"
proof -
  have h: "\<forall>d. JStr (py ''line one'') \<noteq> JDict d" by simp
  from fields_of_non_dict [OF h, of env0] h show ?thesis by simp
qed

lemma splitlines_Nil: "splitlines [] = []"
  by (simp add: splitlines_def)

text \<open>
  C10: for a section entry whose value is a mapping, a missing \<open>grade\<close> key gives the
  sentinel \<open>N/A\<close>, a missing \<open>reasoning\<close> key the empty string and a missing \<open>quick_wins\<close>
  key the empty list, for which no call at all is made for the quick wins block: no
  \<open>Quick Wins:\<close> cell is among the calls of the section. With all three keys missing the
  section is drawn without failing: title, \<open>N/A\<close> badge, empty paragraph.
\<close>

theorem fields_of_missing_keys:
  "(map_of d (py ''grade'') = None \<longrightarrow> grade (fields_of env (JDict d)) = JStr (py ''N/A''))
   \<and> (map_of d (py ''reasoning'') = None \<longrightarrow> reasoning (fields_of env (JDict d)) = JStr [])
   \<and> (map_of d (py ''quick_wins'') = None \<longrightarrow>
        quick_wins (fields_of env (JDict d)) = JList []
        \<and> quick_wins_calls env hf bf (quick_wins (fields_of env (JDict d))) = Inr []
        \<and> (\<forall>cs. section_calls env hf bf ip (name, JDict d) = Inr cs \<longrightarrow>
              Cell 0 6 (JStr (py ''Quick Wins:'')) True AlignDefault \<notin> set cs))
   \<and> (map_of d (py ''grade'') = None \<and> map_of d (py ''reasoning'') = None
        \<and> map_of d (py ''quick_wins'') = None \<longrightarrow>
        section_calls env hf bf ip (name, JDict d)
          = Inr (title_calls env hf (map_of ip name) name
                 @ [SetTextColor (28, 28, 28), SetXY 175 YStart,
                    Cell 15 8 (JStr (py ''N/A'')) True AlignR, Ln 6]
                 @ body_font_calls env bf 11
                 @ [SetTextColor (28, 28, 28), SetX 20, MultiCell 170 6 [], Ln 3]))"
proof -
  have omitted: "Cell 0 6 (JStr (py ''Quick Wins:'')) True AlignDefault \<notin> set cs"
    if q: "map_of d (py ''quick_wins'') = None"
      and cs: "section_calls env hf bf ip (name, JDict d) = Inr cs" for cs
  proof -
    from q have "quick_wins (fields_of env (JDict d)) = JList []"
      by (simp add: dict_get_def)
    with cs obtain gc rc where
      "grade_calls (grade (fields_of env (JDict d))) = Inr gc"
      "reasoning_calls env bf (reasoning (fields_of env (JDict d))) = Inr rc"
      "cs = title_calls env hf (map_of ip name) name @ gc @ rc"
      by (auto simp: section_calls_def Let_def no_quick_wins split: sum.splits)
    then show ?thesis
      by (auto simp: title_calls_def heading_font_calls_def body_font_calls_def grade_calls_def
          reasoning_calls_def split: sum.splits json.splits if_splits)
  qed
  have all_missing: "section_calls env hf bf ip (name, JDict d)
          = Inr (title_calls env hf (map_of ip name) name
                 @ [SetTextColor (28, 28, 28), SetXY 175 YStart,
                    Cell 15 8 (JStr (py ''N/A'')) True AlignR, Ln 6]
                 @ body_font_calls env bf 11
                 @ [SetTextColor (28, 28, 28), SetX 20, MultiCell 170 6 [], Ln 3])"
    if "map_of d (py ''grade'') = None" "map_of d (py ''reasoning'') = None"
      "map_of d (py ''quick_wins'') = None"
    using that
    by (simp add: section_calls_def dict_get_def na_calls reasoning_calls_def no_quick_wins
        splitlines_Nil)
  show ?thesis
    using omitted all_missing by (simp add: dict_get_def no_quick_wins)
qed

theorem fields_of_missing_keys_witness:
  "map_of [] (py ''grade'') = (None :: json option)
   \<and> fields_of env0 (JDict []) = \<lparr> grade = JStr (py ''N/A''), reasoning = JStr [], quick_wins = JList [] \<rparr>
   \<and> section_calls env0 None None [] (py ''Brand'', JDict [])
       = Inr [GetY, SetFont (py ''Helvetica'') (py ''B'') 16, SetTextColor (28, 28, 28),
              SetXY 20 YStart, Cell 0 8 (JStr (py ''Brand - '')) False AlignDefault,
              SetTextColor (28, 28, 28), SetXY 175 YStart,
              Cell 15 8 (JStr (py ''N/A'')) True AlignR, Ln 6,
              SetFont (py ''Helvetica'') [] 11, SetTextColor (28, 28, 28), SetX 20,
              MultiCell 170 6 [], Ln 3]"
proof -
  have "section_calls env0 None None [] (py ''Brand'', JDict [])
          = Inr (title_calls env0 None (map_of [] (py ''Brand'')) (py ''Brand'')
                 @ [SetTextColor (28, 28, 28), SetXY 175 YStart,
                    Cell 15 8 (JStr (py ''N/A'')) True AlignR, Ln 6]
                 @ body_font_calls env0 None 11
                 @ [SetTextColor (28, 28, 28), SetX 20, MultiCell 170 6 [], Ln 3])"
    using fields_of_missing_keys [of "[]" env0 None None "[]" "py ''Brand''"] by simp
  then show ?thesis
    by (simp add: title_calls_def heading_font_calls_def body_font_calls_def has_file_def
        given_def dict_get_def) (simp add: py_def)
qed

lemma out_file_length: "length (out_file env url) = length url + 10"
  by (simp add: out_file_def sanitize_filename_def py_def)

lemma build_pdf_Inr:
  assumes "build_pdf env audit url args = Inr out"
  obtains items cs where "audit = JDict items"
    and "sections_calls env (heading_font args) (body_font args)
           (case icon_paths args of None \<Rightarrow> default_icon_paths | Some ip \<Rightarrow> ip) items = Inr cs"
    and "out = (preamble_calls env (header_image args) (heading_font args) (body_font args)
                 @ cs @ [Output (out_file env url)], out_file env url)"
  using assms by (auto simp: build_pdf_def split: json.splits sum.splits)

text \<open>
  C3 (amended): for every report and every second argument (\<open>website_url\<close>), a run of
  \<open>build_pdf\<close> that returns has written exactly one file, named \<open>audit_\<close>, then the
  sanitized argument, then \<open>.pdf\<close>, and returns that name, which is never the argument
  itself.
\<close>

theorem build_pdf_output_name:
  assumes "build_pdf env audit url args = Inr out"
  shows "snd out = py ''audit_'' @ sanitize_filename env url @ py ''.pdf''
         \<and> concat (map written (fst out)) = [snd out]
         \<and> snd out \<noteq> url"
proof -
  from assms obtain items cs where
    cs: "sections_calls env (heading_font args) (body_font args)
           (case icon_paths args of None \<Rightarrow> default_icon_paths | Some ip \<Rightarrow> ip) items = Inr cs"
    and out: "out = (preamble_calls env (header_image args) (heading_font args) (body_font args)
                 @ cs @ [Output (out_file env url)], out_file env url)"
    by (rule build_pdf_Inr)
  have "out_file env url \<noteq> url"
    using out_file_length [of env url] by auto
  with out sections_calls_obs [OF cs] show ?thesis
    by (simp add: preamble_obs out_file_def del: concat_eq_Nil_conv)
qed

lemma section_calls_fallback:
  "section_calls env hf bf ip (name, JStr s)
     = Inr (title_calls env hf (map_of ip name) name
            @ [SetTextColor (28, 28, 28), SetXY 175 YStart,
               Cell 15 8 (JStr (py ''N/A'')) True AlignR, Ln 6]
            @ body_font_calls env bf 11
            @ [SetTextColor (28, 28, 28), SetX 20,
               MultiCell 170 6 (join (py '' '') (splitlines s)), Ln 3])"
  by (simp add: na_not_a_key section_calls_def na_calls reasoning_calls_def no_quick_wins)

lemma build_pdf_fallback:
  "\<exists>cs. build_pdf env (fallback raw) url args = Inr (cs, out_file env url)"
  by (simp add: build_pdf_def fallback_def section_calls_fallback)

lemma fallback_obs:
  "titles_drawn (build_pdf env (fallback raw) url args) = [py ''error - '', py ''raw - '']"
  "badges_drawn (build_pdf env (fallback raw) url args) = [JStr (py ''N/A''), JStr (py ''N/A'')]"
  "files_written (build_pdf env (fallback raw) url args) = [out_file env url]"
  "returned (build_pdf env (fallback raw) url args) = Some (out_file env url)"
proof -
  obtain cs where b: "build_pdf env (fallback raw) url args = Inr (cs, out_file env url)"
    using build_pdf_fallback by blast
  then obtain sc where
    sc: "sections_calls env (heading_font args) (body_font args)
           (case icon_paths args of None \<Rightarrow> default_icon_paths | Some ip \<Rightarrow> ip)
           [(py ''error'', JStr (py ''Could not parse JSON'')), (py ''raw'', JStr raw)] = Inr sc"
    and cs: "cs = preamble_calls env (header_image args) (heading_font args) (body_font args)
                 @ sc @ [Output (out_file env url)]"
    by (auto simp: build_pdf_def fallback_def split: sum.splits)
  from sections_calls_obs [OF sc] cs b
  show "titles_drawn (build_pdf env (fallback raw) url args) = [py ''error - '', py ''raw - '']"
    "badges_drawn (build_pdf env (fallback raw) url args) = [JStr (py ''N/A''), JStr (py ''N/A'')]"
    "files_written (build_pdf env (fallback raw) url args) = [out_file env url]"
    "returned (build_pdf env (fallback raw) url args) = Some (out_file env url)"
    by (simp_all add: titles_drawn_def badges_drawn_def files_written_def returned_def
        preamble_obs py_def del: concat_eq_Nil_conv)
qed

theorem build_pdf_output_name_witness:
  "(\<exists>cs. build_pdf env0 (fallback (py ''no json'')) (py ''example.com'') default_args
           = Inr (cs, py ''audit_example.com.pdf''))
   \<and> py ''audit_example.com.pdf'' \<noteq> py ''example.com''"
proof -
  obtain cs where b: "build_pdf env0 (fallback (py ''no json'')) (py ''example.com'') default_args
      = Inr (cs, out_file env0 (py ''example.com''))"
    using build_pdf_fallback by blast
  have o: "out_file env0 (py ''example.com'') = py ''audit_example.com.pdf''"
    by (simp add: out_file_def sanitize_filename_def allowed_char_def is_word_def ascii_alnum_def
        py_def env0_def)
  from build_pdf_output_name [OF b] have "snd (cs, out_file env0 (py ''example.com'')) \<noteq> py ''example.com''"
    by blast
  then have "out_file env0 (py ''example.com'') \<noteq> py ''example.com''"
    by simp
  with b o show ?thesis by auto
qed

text \<open>
  C3, as the claim states it, fails: the second argument of \<open>build_pdf\<close> is not the path
  written. Called as \<open>app.py\<close> calls it, with the path \<open>/tmp/example_com_audit.pdf\<close>, it
  writes and returns \<open>audit__tmp_example_com_audit.pdf.pdf\<close>, a name relative to the working
  directory.
\<close>

theorem build_pdf_target_path_counterexample:
  "returned (build_pdf env0 (fallback (py ''no json'')) (py ''/tmp/example_com_audit.pdf'') default_args)
     = Some (py ''audit__tmp_example_com_audit.pdf.pdf'')
   \<and> files_written (build_pdf env0 (fallback (py ''no json'')) (py ''/tmp/example_com_audit.pdf'') default_args)
     = [py ''audit__tmp_example_com_audit.pdf.pdf'']
   \<and> returned (build_pdf env0 (fallback (py ''no json'')) (py ''/tmp/example_com_audit.pdf'') default_args)
     \<noteq> Some (py ''/tmp/example_com_audit.pdf'')"
proof -
  have "out_file env0 (py ''/tmp/example_com_audit.pdf'') = py ''audit__tmp_example_com_audit.pdf.pdf''"
    by (simp add: out_file_def sanitize_filename_def allowed_char_def is_word_def ascii_alnum_def
        py_def env0_def)
  then show ?thesis
    by (simp add: fallback_obs) (simp add: py_def)
qed

lemma section_calls_grade:
  assumes "section_calls env hf bf ip item = Inr cs"
  shows "\<exists>col rest. grade_color (grade (fields_of env (snd item))) = Inr col
           \<and> cs = title_calls env hf (map_of ip (fst item)) (fst item)
                  @ [SetTextColor col, SetXY 175 YStart,
                     Cell 15 8 (grade (fields_of env (snd item))) True AlignR, Ln 6]
                  @ rest"
  using assms
  by (auto simp: section_calls_def Let_def grade_calls_def split: sum.splits)

text \<open>
  C8 (amended): a run of \<open>build_pdf\<close> that returns has drawn one section for each entry of
  the report, in the order of the report, under the key of the entry as its title, with the
  grade of the entry as its badge, and has written the output file. Every section drawn
  starts with the calls of its title (the icon when one is configured and exists, then the
  title cell) followed by the badge: the text colour of the grade, the position at the
  right margin and a right-aligned cell. Given the fallback report, \<open>build_pdf\<close> returns, has
  drawn the two sections \<open>error\<close> and \<open>raw\<close>, both with grade \<open>N/A\<close>, and has written the file.
\<close>

theorem build_pdf_sections:
  "(\<forall>out. build_pdf env (JDict items) url args = Inr out \<longrightarrow>
       titles_drawn (Inr out) = map (\<lambda>item. fst item @ py '' - '') items
     \<and> badges_drawn (Inr out) = map (\<lambda>item. grade (fields_of env (snd item))) items
     \<and> files_written (Inr out) = [out_file env url])
   \<and> (\<forall>item cs. section_calls env hf bf ip item = Inr cs \<longrightarrow>
         (\<exists>col rest. grade_color (grade (fields_of env (snd item))) = Inr col
            \<and> cs = title_calls env hf (map_of ip (fst item)) (fst item)
                   @ [SetTextColor col, SetXY 175 YStart,
                      Cell 15 8 (grade (fields_of env (snd item))) True AlignR, Ln 6]
                   @ rest))
   \<and> (\<exists>cs. build_pdf env (fallback raw) url args = Inr (cs, out_file env url))
   \<and> titles_drawn (build_pdf env (fallback raw) url args) = [py ''error - '', py ''raw - '']
   \<and> badges_drawn (build_pdf env (fallback raw) url args) = [JStr (py ''N/A''), JStr (py ''N/A'')]
   \<and> files_written (build_pdf env (fallback raw) url args) = [out_file env url]"
proof -
  have general: "titles_drawn (Inr out) = map (\<lambda>item. fst item @ py '' - '') items
     \<and> badges_drawn (Inr out) = map (\<lambda>item. grade (fields_of env (snd item))) items
     \<and> files_written (Inr out) = [out_file env url]"
    if b: "build_pdf env (JDict items) url args = Inr out" for out
  proof -
    from b obtain items' cs where "JDict items = JDict items'"
      and cs: "sections_calls env (heading_font args) (body_font args)
           (case icon_paths args of None \<Rightarrow> default_icon_paths | Some ip \<Rightarrow> ip) items' = Inr cs"
      and out: "out = (preamble_calls env (header_image args) (heading_font args) (body_font args)
                 @ cs @ [Output (out_file env url)], out_file env url)"
      by (rule build_pdf_Inr)
    then have "items' = items" by simp
    with sections_calls_obs [OF cs] out show ?thesis
      by (simp add: titles_drawn_def badges_drawn_def files_written_def preamble_obs
          del: concat_eq_Nil_conv)
  qed
  show ?thesis
    using general section_calls_grade [of env hf bf ip] build_pdf_fallback [of env raw url args]
    by (simp add: fallback_obs)
qed

lemma sample_section_calls:
  "section_calls env0 hf bf ip (name, sample_section)
     = Inr (title_calls env0 hf (map_of ip name) name
            @ [SetTextColor (68, 206, 27), SetXY 175 YStart,
               Cell 15 8 (JStr (py ''A'')) True AlignR, Ln 6]
            @ body_font_calls env0 bf 11
            @ [SetTextColor (28, 28, 28), SetX 20, MultiCell 170 6 (py ''x''), Ln 3])"
  by (simp add: section_calls_def sample_section_def dict_get_def grade_calls_def
      reasoning_calls_def no_quick_wins splitlines_def is_linebreak_def grade_colors_def py_def)

theorem build_pdf_sections_witness:
  "titles_drawn (build_pdf env0 sample_report (py ''example.com'') default_args)
     = [py ''Brand - '', py ''Content - '', py ''Website - '', py ''Marketing - '']
   \<and> badges_drawn (build_pdf env0 sample_report (py ''example.com'') default_args)
     = [JStr (py ''A''), JStr (py ''A''), JStr (py ''A''), JStr (py ''A'')]"
proof -
  obtain out where b: "build_pdf env0 (JDict [(py ''Brand'', sample_section),
      (py ''Content'', sample_section), (py ''Website'', sample_section),
      (py ''Marketing'', sample_section)]) (py ''example.com'') default_args = Inr out"
    by (simp add: build_pdf_def sample_section_calls)
  from build_pdf_sections [of env0 _ "py ''example.com''" default_args] b
  have "titles_drawn (Inr out) = map (\<lambda>item. fst item @ py '' - '')
          [(py ''Brand'', sample_section), (py ''Content'', sample_section),
           (py ''Website'', sample_section), (py ''Marketing'', sample_section)]
     \<and> badges_drawn (Inr out) = map (\<lambda>item. grade (fields_of env0 (snd item)))
          [(py ''Brand'', sample_section), (py ''Content'', sample_section),
           (py ''Website'', sample_section), (py ''Marketing'', sample_section)]"
    by blast
  with b show ?thesis
    by (simp add: sample_report_def) (simp add: sample_section_def dict_get_def py_def)
qed

text \<open>
  C8, as the claim states it, fails: the sections drawn are the entries of the report, not
  the four fixed sections. For the fallback report they are \<open>error\<close> and \<open>raw\<close>.
\<close>

theorem build_pdf_four_sections_counterexample:
  "titles_drawn (build_pdf env0 (fallback (py ''no json'')) (py ''example.com'') default_args)
     = [py ''error - '', py ''raw - '']
   \<and> titles_drawn (build_pdf env0 (fallback (py ''no json'')) (py ''example.com'') default_args)
     \<noteq> [py ''Brand - '', py ''Content - '', py ''Website - '', py ''Marketing - '']"
  by (simp add: fallback_obs)

end
